theory Spec2Isabelle
  imports Main
begin

section \<open>Platform values read by the handlers\<close>

text \<open>
  The handlers of \<^verbatim>\<open>shopify-app-remix\<close> read a Fetch \<^verbatim>\<open>Request\<close>, an injected API
  client, the app configuration and a logger. The platform objects are represented by
  the content the handlers observe.

  A form field is a string or an uploaded file (\<^verbatim>\<open>FormDataEntryValue = File | string\<close>);
  the file is kept by its name.
\<close>

datatype FormDataEntryValue = StringValue string | FileValue string

text \<open>\<^verbatim>\<open>FormData\<close> and \<^verbatim>\<open>URLSearchParams\<close> are ordered lists of entries; a name may repeat.\<close>

type_synonym FormData = "(string \<times> FormDataEntryValue) list"

type_synonym URLSearchParams = "(string \<times> string) list"

text \<open>\<^verbatim>\<open>get(name)\<close> of both containers: the value of the first entry of that name, else null.\<close>

fun formData_get :: "FormData \<Rightarrow> string \<Rightarrow> FormDataEntryValue option" where
  "formData_get [] name = None"
| "formData_get ((k, v) # rest) name = (if k = name then Some v else formData_get rest name)"

fun searchParams_get :: "URLSearchParams \<Rightarrow> string \<Rightarrow> string option" where
  "searchParams_get [] name = None"
| "searchParams_get ((k, v) # rest) name = (if k = name then Some v else searchParams_get rest name)"

text \<open>What a handler can throw, or an awaited promise can reject with.\<close>

datatype thrown =
    TypeError string
  | RedirectResponse string
  | ApiError string

record URL =
  href :: string
  searchParams :: URLSearchParams

text \<open>
  A request: \<^verbatim>\<open>new URL(request.url)\<close> (the URL of a \<^verbatim>\<open>Request\<close> is always absolute and
  parses), the settled value of \<^verbatim>\<open>await request.formData()\<close> (which rejects with a
  \<^verbatim>\<open>TypeError\<close> when the body is not form encoded or already consumed), and the parts
  of the request that \<^verbatim>\<open>login\<close> never reads.
\<close>

record Request =
  url :: URL
  formData :: "thrown + FormData"
  httpMethod :: string
  headers :: "(string \<times> string) list"

section \<open>Injected parameters\<close>

record Session =
  sessionId :: string
  shop :: string

text \<open>One registration result of the API client, with its JSON payload of type \<open>'j\<close>.\<close>

record 'j RegisterResult =
  success :: bool
  operation :: string
  result :: 'j

text \<open>The registration response: an object from topic to results, in \<^verbatim>\<open>Object.entries\<close> order.\<close>

type_synonym 'j RegisterReturn = "(string \<times> 'j RegisterResult list) list"

record ApiUtils =
  sanitizeShop :: "string \<Rightarrow> string option"

record 'j ApiWebhooks =
  register :: "Session \<Rightarrow> thrown + 'j RegisterReturn"

record 'j Api =
  utils :: ApiUtils
  webhooks :: "'j ApiWebhooks"

record AuthConfig =
  path :: string
  callbackPath :: string

record AppConfig =
  auth :: AuthConfig

record 'j BasicParams =
  api :: "'j Api"
  config :: AppConfig

section \<open>Observable calls and results\<close>

datatype LogLevel = Debug | Info | Error

datatype ContextValue = CNull | CString string | CFile string

text \<open>
  The calls a handler makes on its injected collaborators, in order: a logger call with
  its level, message and context object, a call of \<^verbatim>\<open>api.utils.sanitizeShop\<close>, a call of
  \<^verbatim>\<open>api.webhooks.register\<close>.
\<close>

datatype effect =
    LoggerCall LogLevel string "(string \<times> ContextValue) list"
  | SanitizeShopCall string
  | WebhooksRegisterCall Session

text \<open>
  Modelled from the spec: the declarations \<^verbatim>\<open>LoginErrorType\<close> and \<^verbatim>\<open>LoginError\<close> of
  \<^verbatim>\<open>src/types\<close>, the login error enum \<^verbatim>\<open>MissingShop | InvalidProtocol | InvalidShop\<close>
  and the object \<^verbatim>\<open>{shop: ...}\<close> that carries it.
\<close>

datatype LoginErrorType = MissingShop | InvalidProtocol | InvalidShop

datatype LoginError = LoginError LoginErrorType

text \<open>An async function either returns a value or throws.\<close>

datatype 'a outcome = Returned 'a | Threw thrown

section \<open>JavaScript primitives used by login\<close>

text \<open>Truthiness of \<^verbatim>\<open>string | File | null\<close> and of \<^verbatim>\<open>string | null\<close>.\<close>

fun truthy :: "FormDataEntryValue option \<Rightarrow> bool" where
  "truthy None = False"
| "truthy (Some (StringValue s)) = (s \<noteq> [])"
| "truthy (Some (FileValue f)) = True"

fun truthyString :: "string option \<Rightarrow> bool" where
  "truthyString None = False"
| "truthyString (Some s) = (s \<noteq> [])"

definition startsWith :: "string \<Rightarrow> string \<Rightarrow> bool" where
  "startsWith s p = (take (length p) s = p)"

text \<open>\<^verbatim>\<open>String.prototype.indexOf\<close> for a one-character needle: first position, or -1.\<close>

fun indexOf :: "string \<Rightarrow> char \<Rightarrow> int" where
  "indexOf [] c = - 1"
| "indexOf (x # xs) c =
     (if x = c then 0 else (let i = indexOf xs c in if i = - 1 then - 1 else i + 1))"

fun contextValue :: "FormDataEntryValue option \<Rightarrow> ContextValue" where
  "contextValue None = CNull"
| "contextValue (Some (StringValue s)) = CString s"
| "contextValue (Some (FileValue f)) = CFile f"

fun contextString :: "string option \<Rightarrow> ContextValue" where
  "contextString None = CNull"
| "contextString (Some s) = CString s"

text \<open>A value of type \<^verbatim>\<open>string | null\<close> inside a template literal.\<close>

fun interpolate :: "string option \<Rightarrow> string" where
  "interpolate None = ''null''"
| "interpolate (Some s) = s"

section \<open>The login handler\<close>

text \<open>
  Lines 12 to 14 of \<^verbatim>\<open>login.ts\<close>: the form value when truthy, else the query value.
\<close>

definition shopParam :: "FormData \<Rightarrow> URL \<Rightarrow> FormDataEntryValue option" where
  "shopParam fd u =
     (if truthy (formData_get fd ''shop'') then formData_get fd ''shop''
      else map_option StringValue (searchParams_get (searchParams u) ''shop''))"

text \<open>Lines 26 and 27.\<close>

definition shopWithDot :: "string \<Rightarrow> string" where
  "shopWithDot s = (if indexOf s (CHR ''.'') = - 1 then s @ ''.myshopify.com'' else s)"

text \<open>Line 35.\<close>

definition redirectUrl :: "AppConfig \<Rightarrow> string option \<Rightarrow> string" where
  "redirectUrl c sanitizedShop = path (auth c) @ ''?shop='' @ interpolate sanitizedShop"

text \<open>
  \<^verbatim>\<open>login\<close> of \<^verbatim>\<open>loginFactory(params)\<close>: the outcome and the calls made. A rejected
  \<^verbatim>\<open>formData()\<close> propagates. The cast \<^verbatim>\<open>as string\<close> does nothing at run time, so a file
  field named shop reaches \<^verbatim>\<open>shop.startsWith\<close>, which a \<^verbatim>\<open>File\<close> does not have. The
  last branch, a null shop after the test \<^verbatim>\<open>!shop\<close>, is never taken.
\<close>

definition login :: "'j BasicParams \<Rightarrow> Request \<Rightarrow> LoginError outcome \<times> effect list" where
  "login params request =
     (case formData request of
        Inl e \<Rightarrow> (Threw e, [])
      | Inr fd \<Rightarrow>
         (let shopV = shopParam fd (url request) in
          if \<not> truthy shopV then
            (Returned (LoginError MissingShop),
             [LoggerCall Debug ''Missing shop parameter'' [(''shop'', contextValue shopV)]])
          else
            (case shopV of
               Some (StringValue s) \<Rightarrow>
                 if startsWith s ''http'' then
                   (Returned (LoginError InvalidProtocol),
                    [LoggerCall Debug ''Shop parameter contained protocol'' [(''shop'', CString s)]])
                 else
                   (let swd = shopWithDot s;
                        sanitizedShop = sanitizeShop (utils (api params)) swd in
                    if \<not> truthyString sanitizedShop then
                      (Returned (LoginError InvalidShop),
                       [SanitizeShopCall swd,
                        LoggerCall Debug ''Invalid shop parameter'' [(''shop'', CString swd)]])
                    else
                      (let target = redirectUrl (config params) sanitizedShop in
                       (Threw (RedirectResponse target),
                        [SanitizeShopCall swd,
                         LoggerCall Info (''Redirecting login request to '' @ target)
                           [(''shop'', contextString sanitizedShop)]])))
             | Some (FileValue f) \<Rightarrow>
                 (Threw (TypeError ''shop.startsWith is not a function''), [])
             | None \<Rightarrow>
                 (Threw (TypeError ''Cannot read properties of null''), []))))"

section \<open>The webhook registration handler\<close>

text \<open>
  The inner \<^verbatim>\<open>topicResults.forEach\<close>: one logger call per result, \<^verbatim>\<open>debug\<close> on success
  and \<^verbatim>\<open>error\<close> otherwise. \<^verbatim>\<open>JSON.stringify\<close> is the argument \<open>stringify\<close>.
\<close>

fun logTopicResults ::
  "('j \<Rightarrow> string) \<Rightarrow> Session \<Rightarrow> string \<Rightarrow> 'j RegisterResult list \<Rightarrow> effect list" where
  "logTopicResults stringify session topic [] = []"
| "logTopicResults stringify session topic (r # rs) =
     (if success r then
        LoggerCall Debug ''Registered webhook''
          [(''topic'', CString topic), (''shop'', CString (shop session)),
           (''operation'', CString (operation r))]
      else
        LoggerCall Error ''Failed to register webhook''
          [(''topic'', CString topic), (''shop'', CString (shop session)),
           (''result'', CString (stringify (result r)))])
     # logTopicResults stringify session topic rs"

text \<open>The outer \<^verbatim>\<open>Object.entries(response).forEach\<close>.\<close>

fun logResponse ::
  "('j \<Rightarrow> string) \<Rightarrow> Session \<Rightarrow> 'j RegisterReturn \<Rightarrow> effect list" where
  "logResponse stringify session [] = []"
| "logResponse stringify session ((topic, topicResults) # rest) =
     logTopicResults stringify session topic topicResults @ logResponse stringify session rest"

record RegisterWebhooksOptions =
  session :: Session

text \<open>
  \<^verbatim>\<open>registerWebhooks\<close> of \<^verbatim>\<open>registerWebhooksFactory({api, logger})\<close>. The \<^verbatim>\<open>then\<close>
  callback runs only when the registration promise fulfils; a rejection passes through.
\<close>

definition registerWebhooks ::
  "('j \<Rightarrow> string) \<Rightarrow> 'j BasicParams \<Rightarrow> RegisterWebhooksOptions
     \<Rightarrow> 'j RegisterReturn outcome \<times> effect list" where
  "registerWebhooks stringify params options =
     (case register (webhooks (api params)) (session options) of
        Inl e \<Rightarrow> (Threw e, [WebhooksRegisterCall (session options)])
      | Inr response \<Rightarrow>
          (Returned response,
           WebhooksRegisterCall (session options)
             # logResponse stringify (session options) response))"

section \<open>Reading a trace of calls\<close>

fun sanitizeShopCalls :: "effect list \<Rightarrow> string list" where
  "sanitizeShopCalls [] = []"
| "sanitizeShopCalls (SanitizeShopCall x # es) = x # sanitizeShopCalls es"
| "sanitizeShopCalls (e # es) = sanitizeShopCalls es"

fun registerCalls :: "effect list \<Rightarrow> Session list" where
  "registerCalls [] = []"
| "registerCalls (WebhooksRegisterCall s # es) = s # registerCalls es"
| "registerCalls (e # es) = registerCalls es"

fun loggerCalls :: "effect list \<Rightarrow> LogLevel list" where
  "loggerCalls [] = []"
| "loggerCalls (LoggerCall l m c # es) = l # loggerCalls es"
| "loggerCalls (e # es) = loggerCalls es"

section \<open>The spec's notion of a URL scheme\<close>

text \<open>
  The spec speaks of a shop that includes a URL scheme. Following those words, and not
  the code: a scheme is a letter, then letters, digits, plus, minus or dot, then a colon
  (RFC 3986, section 3.1). \<open>spec_startsUrlScheme s\<close> says that \<open>s\<close> begins with one.
\<close>

definition schemeAlpha :: "char \<Rightarrow> bool" where
  "schemeAlpha c = (c \<in> set ''abcdefghijklmnopqrstuvwxyzABCDEFGHIJKLMNOPQRSTUVWXYZ'')"

definition schemeChar :: "char \<Rightarrow> bool" where
  "schemeChar c = (schemeAlpha c \<or> c \<in> set ''0123456789+-.'')"

fun schemeTail :: "string \<Rightarrow> bool" where
  "schemeTail [] = False"
| "schemeTail (c # cs) = (c = CHR '':'' \<or> (schemeChar c \<and> schemeTail cs))"

definition spec_startsUrlScheme :: "string \<Rightarrow> bool" where
  "spec_startsUrlScheme s = (case s of [] \<Rightarrow> False | c # cs \<Rightarrow> schemeAlpha c \<and> schemeTail cs)"

section \<open>An example configuration\<close>

text \<open>
  A stand-in for the injected API client, used in the examples only: its sanitizer
  accepts \<^verbatim>\<open>name.myshopify.com\<close> for a name of letters, digits and hyphens and returns
  it unchanged, as the client does for a valid shop domain; its registration call
  reports one success and one failure.
\<close>

definition shopNameChar :: "char \<Rightarrow> bool" where
  "shopNameChar c =
     (c \<in> set ''abcdefghijklmnopqrstuvwxyzABCDEFGHIJKLMNOPQRSTUVWXYZ0123456789-'')"

definition exampleSanitizeShop :: "string \<Rightarrow> string option" where
  "exampleSanitizeShop s =
     (let n = length s - length ''.myshopify.com'' in
      if length ''.myshopify.com'' < length s \<and> drop n s = ''.myshopify.com''
         \<and> list_all shopNameChar (take n s)
      then Some s else None)"

definition exampleResponse :: "string RegisterReturn" where
  "exampleResponse =
     [(''APP_UNINSTALLED'',
        [\<lparr>success = True, operation = ''create'', result = ''ok''\<rparr>]),
      (''PRODUCTS_UPDATE'',
        [\<lparr>success = False, operation = ''create'', result = ''denied''\<rparr>])]"

definition exampleRegister :: "Session \<Rightarrow> thrown + string RegisterReturn" where
  "exampleRegister s = Inr exampleResponse"

definition exampleParams :: "string BasicParams" where
  "exampleParams =
     \<lparr>api = \<lparr>utils = \<lparr>sanitizeShop = exampleSanitizeShop\<rparr>,
             webhooks = \<lparr>register = exampleRegister\<rparr>\<rparr>,
      config = \<lparr>auth = \<lparr>path = ''/auth'', callbackPath = ''/auth/callback''\<rparr>\<rparr>\<rparr>"

definition exampleSession :: Session where
  "exampleSession = \<lparr>sessionId = ''offline_cats.myshopify.com'', shop = ''cats.myshopify.com''\<rparr>"

text \<open>
  A POST request with a form-encoded body: the given query entries and form fields.
\<close>

definition exampleRequest :: "URLSearchParams \<Rightarrow> FormData \<Rightarrow> Request" where
  "exampleRequest q fd =
     \<lparr>url = \<lparr>href = ''https://app.example/auth/login'', searchParams = q\<rparr>,
      formData = Inr fd, httpMethod = ''POST'',
      headers = [(''content-type'', ''application/x-www-form-urlencoded'')]\<rparr>"

text \<open>A POST request with a multipart body, which can carry files.\<close>

definition exampleMultipartRequest :: "URLSearchParams \<Rightarrow> FormData \<Rightarrow> Request" where
  "exampleMultipartRequest q fd =
     \<lparr>url = \<lparr>href = ''https://app.example/auth/login'', searchParams = q\<rparr>,
      formData = Inr fd, httpMethod = ''POST'',
      headers = [(''content-type'', ''multipart/form-data; boundary=x'')]\<rparr>"

text \<open>
  A GET request with the given query entries. It has no body, so \<^verbatim>\<open>formData()\<close>
  rejects.
\<close>

definition exampleGetRequest :: "URLSearchParams \<Rightarrow> Request" where
  "exampleGetRequest q =
     \<lparr>url = \<lparr>href = ''https://app.example/auth/login'', searchParams = q\<rparr>,
      formData = Inl (TypeError ''Could not parse content as FormData.''),
      httpMethod = ''GET'', headers = []\<rparr>"

text \<open>Parameters whose sanitizer returns every shop as it is.\<close>

definition acceptEveryShop :: "string \<Rightarrow> string option" where
  "acceptEveryShop s = Some s"

definition examplePermissiveParams :: "string BasicParams" where
  "examplePermissiveParams =
     \<lparr>api = \<lparr>utils = \<lparr>sanitizeShop = acceptEveryShop\<rparr>,
             webhooks = \<lparr>register = exampleRegister\<rparr>\<rparr>,
      config = \<lparr>auth = \<lparr>path = ''/auth'', callbackPath = ''/auth/callback''\<rparr>\<rparr>\<rparr>"

section \<open>Facts about the primitives\<close>

lemma indexOf_lower: "- 1 \<le> indexOf s c"
  by (induction s) (auto simp: Let_def)

lemma indexOf_absent: "(indexOf s c = - 1) = (c \<notin> set s)"
proof (induction s)
  case Nil
  show ?case by simp
next
  case (Cons x xs)
  have "indexOf xs c + 1 \<noteq> - 1" using indexOf_lower [of xs c] by arith
  with Cons show ?case by (auto simp: Let_def)
qed

lemma shopWithDot_cases:
  "shopWithDot s = (if CHR ''.'' \<in> set s then s else s @ ''.myshopify.com'')"
  by (simp add: shopWithDot_def indexOf_absent)

lemma startsWith_nonempty: "startsWith s ''http'' \<Longrightarrow> s \<noteq> []"
  by (auto simp: startsWith_def)

lemma truthy_shopParam:
  "truthy (shopParam fd u) =
     (truthy (formData_get fd ''shop'') \<or> truthyString (searchParams_get (searchParams u) ''shop''))"
  by (cases "searchParams_get (searchParams u) ''shop''") (simp_all add: shopParam_def)

lemma truthyString_Some:
  assumes "truthyString r"
  obtains t where "r = Some t" and "t \<noteq> []"
  using assms by (cases r) auto

section \<open>The five ways through login\<close>


lemma login_missing:
  assumes "formData request = Inr fd" and "\<not> truthy (shopParam fd (url request))"
  shows "login params request =
    (Returned (LoginError MissingShop),
     [LoggerCall Debug ''Missing shop parameter''
        [(''shop'', contextValue (shopParam fd (url request)))]])"
  using assms by (simp add: login_def Let_def)

lemma login_file:
  assumes "formData request = Inr fd" and "shopParam fd (url request) = Some (FileValue f)"
  shows "login params request = (Threw (TypeError ''shop.startsWith is not a function''), [])"
  using assms by (simp add: login_def Let_def)

lemma login_protocol:
  assumes "formData request = Inr fd" and "shopParam fd (url request) = Some (StringValue s)"
    and "startsWith s ''http''"
  shows "login params request =
    (Returned (LoginError InvalidProtocol),
     [LoggerCall Debug ''Shop parameter contained protocol'' [(''shop'', CString s)]])"
  using assms startsWith_nonempty [of s] by (simp add: login_def Let_def)

lemma login_invalid:
  assumes "formData request = Inr fd" and "shopParam fd (url request) = Some (StringValue s)"
    and "s \<noteq> []" and "\<not> startsWith s ''http''"
    and "\<not> truthyString (sanitizeShop (utils (api params)) (shopWithDot s))"
  shows "login params request =
    (Returned (LoginError InvalidShop),
     [SanitizeShopCall (shopWithDot s),
      LoggerCall Debug ''Invalid shop parameter'' [(''shop'', CString (shopWithDot s))]])"
  using assms by (simp add: login_def Let_def)

lemma login_redirect:
  assumes "formData request = Inr fd" and "shopParam fd (url request) = Some (StringValue s)"
    and "s \<noteq> []" and "\<not> startsWith s ''http''"
    and "sanitizeShop (utils (api params)) (shopWithDot s) = Some t" and "t \<noteq> []"
  shows "login params request =
    (Threw (RedirectResponse (redirectUrl (config params) (Some t))),
     [SanitizeShopCall (shopWithDot s),
      LoggerCall Info (''Redirecting login request to '' @ redirectUrl (config params) (Some t))
        [(''shop'', CString t)]])"
  using assms by (simp add: login_def Let_def)


lemma login_sanitizeShopCalls:
  assumes "formData request = Inr fd" and "shopParam fd (url request) = Some (StringValue s)"
    and "s \<noteq> []" and "\<not> startsWith s ''http''"
  shows "sanitizeShopCalls (snd (login params request)) = [shopWithDot s]"
proof (cases "truthyString (sanitizeShop (utils (api params)) (shopWithDot s))")
  case False
  with assms show ?thesis by (simp add: login_invalid)
next
  case True
  then obtain t where "sanitizeShop (utils (api params)) (shopWithDot s) = Some t" and "t \<noteq> []"
    by (rule truthyString_Some)
  with assms show ?thesis by (simp add: login_redirect)
qed

lemma login_missing_iff:
  assumes "formData request = Inr fd"
  shows "(fst (login params request) = Returned (LoginError MissingShop))
         = (\<not> truthy (shopParam fd (url request)))"
proof (cases "truthy (shopParam fd (url request))")
  case False
  with assms show ?thesis by (simp add: login_missing)
next
  case present: True
  show ?thesis
  proof (cases "shopParam fd (url request)")
    case None
    with present show ?thesis by simp
  next
    case (Some v)
    show ?thesis
    proof (cases v)
      case (FileValue f)
      with Some assms present show ?thesis by (simp add: login_file)
    next
      case (StringValue s)
      with Some present have ne: "s \<noteq> []" by simp
      show ?thesis
      proof (cases "startsWith s ''http''")
        case True
        with assms Some StringValue ne show ?thesis by (simp add: login_protocol)
      next
        case nohttp: False
        show ?thesis
        proof (cases "truthyString (sanitizeShop (utils (api params)) (shopWithDot s))")
          case False
          with assms Some StringValue ne nohttp show ?thesis by (simp add: login_invalid)
        next
          case True
          then obtain t where "sanitizeShop (utils (api params)) (shopWithDot s) = Some t"
            and "t \<noteq> []"
            by (rule truthyString_Some)
          with assms Some StringValue ne nohttp show ?thesis by (simp add: login_redirect)
        qed
      qed
    qed
  qed
qed


section \<open>Facts about the registration log\<close>

lemma registerCalls_append: "registerCalls (xs @ ys) = registerCalls xs @ registerCalls ys"
  by (induction xs rule: registerCalls.induct) simp_all

lemma loggerCalls_append: "loggerCalls (xs @ ys) = loggerCalls xs @ loggerCalls ys"
  by (induction xs rule: loggerCalls.induct) simp_all

lemma registerCalls_logTopicResults: "registerCalls (logTopicResults f s topic rs) = []"
  by (induction rs) simp_all

lemma registerCalls_logResponse: "registerCalls (logResponse f s response) = []"
  by (induction response) (auto simp: registerCalls_append registerCalls_logTopicResults)

lemma loggerCalls_logTopicResults:
  "loggerCalls (logTopicResults f s topic rs) = map (\<lambda>r. if success r then Debug else Error) rs"
  by (induction rs) simp_all

lemma loggerCalls_logResponse:
  "loggerCalls (logResponse f s response)
   = map (\<lambda>r. if success r then Debug else Error) (concat (map snd response))"
  by (induction response) (auto simp: loggerCalls_append loggerCalls_logTopicResults)

lemma length_logTopicResults: "length (logTopicResults f s topic rs) = length rs"
  by (induction rs) simp_all

lemma length_logResponse:
  "length (logResponse f s response) = length (concat (map snd response))"
  by (induction response) (auto simp: length_logTopicResults)

lemmas example_defs =
  exampleRequest_def exampleMultipartRequest_def exampleGetRequest_def
  exampleParams_def examplePermissiveParams_def acceptEveryShop_def
  exampleSanitizeShop_def shopNameChar_def shopParam_def startsWith_def

lemmas scheme_defs = spec_startsUrlScheme_def schemeAlpha_def schemeChar_def

section \<open>Login: validation failures\<close>

text \<open>
  Claim C1, as the code has it. When the form data of the request can be read and the
  shop parameter fails one of the three checks of the handler (it is missing or empty,
  or it is a string that starts with \<^verbatim>\<open>http\<close>, or it is a string for which the
  sanitizer gives nothing), login returns a \<^verbatim>\<open>LoginError\<close> value and throws nothing.
\<close>

theorem login_validation_failure_returns_error:
  assumes "formData request = Inr fd"
    and "shopParam fd (url request) = v"
    and "\<not> truthy v \<or>
         (\<exists>s. v = Some (StringValue s) \<and>
            (startsWith s ''http'' \<or>
             \<not> truthyString (sanitizeShop (utils (api params)) (shopWithDot s))))"
  shows "(\<exists>e. fst (login params request) = Returned (LoginError e)) \<and>
         (\<forall>t. fst (login params request) \<noteq> Threw t)"
proof (cases "truthy v")
  case False
  with assms(1,2) show ?thesis by (simp add: login_missing)
next
  case True
  with assms(3) obtain s where s: "v = Some (StringValue s)"
    and bad: "startsWith s ''http'' \<or>
      \<not> truthyString (sanitizeShop (utils (api params)) (shopWithDot s))"
    by blast
  from True s have ne: "s \<noteq> []" by simp
  show ?thesis
  proof (cases "startsWith s ''http''")
    case True
    with assms(1,2) s show ?thesis by (simp add: login_protocol)
  next
    case False
    with bad assms(1,2) s ne show ?thesis by (simp add: login_invalid)
  qed
qed

text \<open>The three failures on concrete requests: no shop, an https URL, a foreign domain.\<close>

theorem login_validation_failure_returns_error_witness:
  "formData (exampleRequest [] []) = Inr []
   \<and> \<not> truthy (shopParam [] (url (exampleRequest [] [])))
   \<and> (\<exists>e. fst (login exampleParams (exampleRequest [] [])) = Returned (LoginError e))
   \<and> startsWith ''https://cats.myshopify.com'' ''http''
   \<and> (\<exists>e. fst (login exampleParams
          (exampleRequest [] [(''shop'', StringValue ''https://cats.myshopify.com'')]))
        = Returned (LoginError e))
   \<and> exampleSanitizeShop (shopWithDot ''cats.example.com'') = None
   \<and> (\<forall>t. fst (login exampleParams (exampleRequest [(''shop'', ''cats.example.com'')] []))
        \<noteq> Threw t)"
  using login_validation_failure_returns_error
          [of "exampleRequest [] []" "[]" None exampleParams]
    login_validation_failure_returns_error
          [of "exampleRequest [] [(''shop'', StringValue ''https://cats.myshopify.com'')]"
          "[(''shop'', StringValue ''https://cats.myshopify.com'')]"
          "Some (StringValue ''https://cats.myshopify.com'')" exampleParams]
    login_validation_failure_returns_error
          [of "exampleRequest [(''shop'', ''cats.example.com'')] []" "[]"
          "Some (StringValue ''cats.example.com'')" exampleParams]
  by (simp add: example_defs shopWithDot_def)

text \<open>
  Three requests on which login throws. A GET request without a shop: its form data
  cannot be read, and the \<^verbatim>\<open>TypeError\<close> of \<^verbatim>\<open>formData()\<close> comes out. A file in the shop
  field: the prefix test itself throws. An ftp URL under a sanitizer that accepts it: the
  shop has a URL scheme, and login throws the redirect.
\<close>

theorem login_validation_failure_throws_counterexample:
  "formData (exampleGetRequest []) = Inl (TypeError ''Could not parse content as FormData.'')
   \<and> searchParams_get (searchParams (url (exampleGetRequest []))) ''shop'' = None
   \<and> fst (login exampleParams (exampleGetRequest []))
       = Threw (TypeError ''Could not parse content as FormData.'')
   \<and> fst (login exampleParams (exampleMultipartRequest [] [(''shop'', FileValue ''shop.png'')]))
       = Threw (TypeError ''shop.startsWith is not a function'')
   \<and> spec_startsUrlScheme ''ftp://cats.myshopify.com''
   \<and> fst (login examplePermissiveParams
          (exampleRequest [(''shop'', ''ftp://cats.myshopify.com'')] []))
       = Threw (RedirectResponse ''/auth?shop=ftp://cats.myshopify.com'')"
  by (simp add: scheme_defs login_def Let_def example_defs shopWithDot_def redirectUrl_def)

section \<open>Login: the protocol check\<close>

text \<open>
  Claim C2, as the code has it. The handler tests the prefix \<^verbatim>\<open>http\<close> and nothing else:
  when the form data of the request can be read, every shop parameter, from the form or
  from the query string, that is a string starting with \<^verbatim>\<open>http\<close> is answered with
  \<^verbatim>\<open>InvalidProtocol\<close>.
\<close>

theorem login_http_prefix_invalid_protocol:
  assumes "formData request = Inr fd"
    and "shopParam fd (url request) = Some (StringValue s)"
    and "startsWith s ''http''"
  shows "fst (login params request) = Returned (LoginError InvalidProtocol)"
  using assms by (simp add: login_protocol)

text \<open>An http URL in the form and an https URL in the query string.\<close>

theorem login_http_prefix_invalid_protocol_witness:
  "formData (exampleRequest [] [(''shop'', StringValue ''http://cats.myshopify.com'')])
     = Inr [(''shop'', StringValue ''http://cats.myshopify.com'')]
   \<and> shopParam [(''shop'', StringValue ''http://cats.myshopify.com'')]
      (url (exampleRequest [] [(''shop'', StringValue ''http://cats.myshopify.com'')]))
     = Some (StringValue ''http://cats.myshopify.com'')
   \<and> startsWith ''http://cats.myshopify.com'' ''http''
   \<and> fst (login exampleParams
          (exampleRequest [] [(''shop'', StringValue ''http://cats.myshopify.com'')]))
       = Returned (LoginError InvalidProtocol)
   \<and> shopParam [] (url (exampleRequest [(''shop'', ''https://cats.myshopify.com'')] []))
     = Some (StringValue ''https://cats.myshopify.com'')
   \<and> startsWith ''https://cats.myshopify.com'' ''http''
   \<and> fst (login exampleParams (exampleRequest [(''shop'', ''https://cats.myshopify.com'')] []))
       = Returned (LoginError InvalidProtocol)"
  using login_http_prefix_invalid_protocol
          [of "exampleRequest [] [(''shop'', StringValue ''http://cats.myshopify.com'')]"
          "[(''shop'', StringValue ''http://cats.myshopify.com'')]"
          "''http://cats.myshopify.com''" exampleParams]
    login_http_prefix_invalid_protocol
          [of "exampleRequest [(''shop'', ''https://cats.myshopify.com'')] []" "[]"
          "''https://cats.myshopify.com''" exampleParams]
  by (simp add: exampleRequest_def shopParam_def startsWith_def)

text \<open>
  Two shops with a URL scheme that are not answered with \<^verbatim>\<open>InvalidProtocol\<close>. An ftp
  URL goes on to the sanitizer, and the error is \<^verbatim>\<open>InvalidShop\<close>. An https URL in the
  query string of a GET request is never looked at: the form data cannot be read, and
  login throws.
\<close>

theorem login_other_scheme_counterexample:
  "spec_startsUrlScheme ''ftp://cats.myshopify.com''
   \<and> fst (login exampleParams (exampleRequest [(''shop'', ''ftp://cats.myshopify.com'')] []))
       = Returned (LoginError InvalidShop)
   \<and> spec_startsUrlScheme ''https://cats.myshopify.com''
   \<and> searchParams_get
         (searchParams (url (exampleGetRequest [(''shop'', ''https://cats.myshopify.com'')])))
         ''shop'' = Some ''https://cats.myshopify.com''
   \<and> fst (login exampleParams (exampleGetRequest [(''shop'', ''https://cats.myshopify.com'')]))
       = Threw (TypeError ''Could not parse content as FormData.'')"
  by (simp add: scheme_defs login_def Let_def example_defs shopWithDot_def)

section \<open>Login: the missing shop\<close>

text \<open>
  Claim C3, as the code has it. When the form data of the request can be read, login
  returns \<^verbatim>\<open>MissingShop\<close> exactly when neither the form nor the query string gives a
  truthy shop value; the empty string counts as no value. In particular it returns
  \<^verbatim>\<open>MissingShop\<close> when both give null, and never when one of them gives a non-empty
  value.
\<close>

theorem login_missing_shop_iff_no_truthy_value:
  assumes "formData request = Inr fd"
  shows "(fst (login params request) = Returned (LoginError MissingShop))
         = (\<not> truthy (formData_get fd ''shop'')
            \<and> \<not> truthyString (searchParams_get (searchParams (url request)) ''shop''))"
  using assms by (simp add: login_missing_iff truthy_shopParam)

text \<open>A request without any shop, and one with a shop in the query string.\<close>

theorem login_missing_shop_iff_no_truthy_value_witness:
  "formData (exampleRequest [] []) = Inr []
   \<and> fst (login exampleParams (exampleRequest [] [])) = Returned (LoginError MissingShop)
   \<and> formData (exampleRequest [(''shop'', ''cats'')] []) = Inr []
   \<and> fst (login exampleParams (exampleRequest [(''shop'', ''cats'')] []))
       \<noteq> Returned (LoginError MissingShop)"
  using login_missing_shop_iff_no_truthy_value [of "exampleRequest [] []" "[]" exampleParams]
    login_missing_shop_iff_no_truthy_value
      [of "exampleRequest [(''shop'', ''cats'')] []" "[]" exampleParams]
  by (simp add: exampleRequest_def)

text \<open>
  The query string \<^verbatim>\<open>?shop=\<close> carries a shop value, the empty string, and login still
  returns \<^verbatim>\<open>MissingShop\<close>. A GET request carries no shop at all, and login does not
  return \<^verbatim>\<open>MissingShop\<close>: the form data cannot be read, and login throws.
\<close>

theorem login_empty_query_shop_counterexample:
  "searchParams_get (searchParams (url (exampleRequest [(''shop'', '''')] []))) ''shop'' = Some ''''
   \<and> fst (login exampleParams (exampleRequest [(''shop'', '''')] []))
       = Returned (LoginError MissingShop)
   \<and> formData (exampleGetRequest []) = Inl (TypeError ''Could not parse content as FormData.'')
   \<and> searchParams_get (searchParams (url (exampleGetRequest []))) ''shop'' = None
   \<and> fst (login exampleParams (exampleGetRequest []))
       = Threw (TypeError ''Could not parse content as FormData.'')"
  by (simp add: login_def Let_def exampleRequest_def exampleGetRequest_def shopParam_def)

section \<open>Login: normalising the shop\<close>

text \<open>
  Claim C4, as the code has it. When the form data of the request can be read, for every
  non-empty shop parameter that is a string and does not start with \<^verbatim>\<open>http\<close>, the
  sanitizer is called once, with the shop followed by \<^verbatim>\<open>.myshopify.com\<close> when the shop
  has no dot, and with the shop itself when it has one.
\<close>

theorem login_sanitizer_argument:
  assumes "formData request = Inr fd"
    and "shopParam fd (url request) = Some (StringValue s)"
    and "s \<noteq> []" and "\<not> startsWith s ''http''"
  shows "sanitizeShopCalls (snd (login params request))
         = [if CHR ''.'' \<in> set s then s else s @ ''.myshopify.com'']"
  using assms by (simp add: login_sanitizeShopCalls shopWithDot_cases)

text \<open>A bare name is completed, a full domain is passed on as it is.\<close>

theorem login_sanitizer_argument_witness:
  "formData (exampleRequest [(''shop'', ''cats'')] []) = Inr []
   \<and> shopParam [] (url (exampleRequest [(''shop'', ''cats'')] [])) = Some (StringValue ''cats'')
   \<and> \<not> startsWith ''cats'' ''http''
   \<and> sanitizeShopCalls (snd (login exampleParams (exampleRequest [(''shop'', ''cats'')] [])))
       = [''cats.myshopify.com'']
   \<and> shopParam [] (url (exampleRequest [(''shop'', ''cats.example.com'')] []))
       = Some (StringValue ''cats.example.com'')
   \<and> \<not> startsWith ''cats.example.com'' ''http''
   \<and> sanitizeShopCalls (snd (login exampleParams (exampleRequest [(''shop'', ''cats.example.com'')] [])))
       = [''cats.example.com'']"
  using login_sanitizer_argument
          [of "exampleRequest [(''shop'', ''cats'')] []" "[]" "''cats''" exampleParams]
    login_sanitizer_argument
          [of "exampleRequest [(''shop'', ''cats.example.com'')] []" "[]" "''cats.example.com''"
          exampleParams]
  by (simp add: exampleRequest_def shopParam_def startsWith_def)

text \<open>
  The bare shop name \<^verbatim>\<open>httpcats\<close> starts no URL scheme and has no dot, yet it never
  reaches the sanitizer: the prefix test answers \<^verbatim>\<open>InvalidProtocol\<close>. The bare shop
  name \<^verbatim>\<open>cats\<close> in the query string of a GET request never reaches it either: the form
  data cannot be read, and login throws.
\<close>

theorem login_http_named_shop_counterexample:
  "\<not> spec_startsUrlScheme ''httpcats''
   \<and> indexOf ''httpcats'' (CHR ''.'') = - 1
   \<and> sanitizeShopCalls (snd (login exampleParams (exampleRequest [(''shop'', ''httpcats'')] []))) = []
   \<and> fst (login exampleParams (exampleRequest [(''shop'', ''httpcats'')] []))
       = Returned (LoginError InvalidProtocol)
   \<and> \<not> spec_startsUrlScheme ''cats''
   \<and> indexOf ''cats'' (CHR ''.'') = - 1
   \<and> searchParams_get (searchParams (url (exampleGetRequest [(''shop'', ''cats'')]))) ''shop''
       = Some ''cats''
   \<and> sanitizeShopCalls (snd (login exampleParams (exampleGetRequest [(''shop'', ''cats'')]))) = []"
  by (simp add: scheme_defs login_def Let_def example_defs)

section \<open>Login: the rejected shop\<close>




section \<open>Login: the redirect\<close>

text \<open>
  Claim C6. When every check passes (the form data was read, the shop parameter is a
  non-empty string that does not start with \<^verbatim>\<open>http\<close>, and the sanitizer returns a
  non-empty shop), login throws a redirect whose target is the configured
  \<^verbatim>\<open>config.auth.path\<close>, then \<^verbatim>\<open>?shop=\<close>, then the sanitized shop.
\<close>

theorem login_redirect_target:
  assumes "formData request = Inr fd"
    and "shopParam fd (url request) = Some (StringValue s)"
    and "s \<noteq> []" and "\<not> startsWith s ''http''"
    and "sanitizeShop (utils (api params)) (shopWithDot s) = Some t" and "t \<noteq> []"
  shows "fst (login params request)
         = Threw (RedirectResponse (path (auth (config params)) @ ''?shop='' @ t))"
  using assms by (simp add: login_redirect redirectUrl_def)

text \<open>A bare shop name in the form, with the auth path \<^verbatim>\<open>/auth\<close>.\<close>

theorem login_redirect_target_witness:
  "shopParam [(''shop'', StringValue ''cats'')]
       (url (exampleRequest [] [(''shop'', StringValue ''cats'')])) = Some (StringValue ''cats'')
   \<and> \<not> startsWith ''cats'' ''http''
   \<and> sanitizeShop (utils (api exampleParams)) (shopWithDot ''cats'') = Some ''cats.myshopify.com''
   \<and> fst (login exampleParams (exampleRequest [] [(''shop'', StringValue ''cats'')]))
       = Threw (RedirectResponse ''/auth?shop=cats.myshopify.com'')"
  using login_redirect_target
          [of "exampleRequest [] [(''shop'', StringValue ''cats'')]"
          "[(''shop'', StringValue ''cats'')]" "''cats''" exampleParams "''cats.myshopify.com''"]
  by (simp add: example_defs shopWithDot_def)

text \<open>
  Claim C9. When every check passes, login does not return: no value is returned, and
  what it throws is the redirect response. The only values login can return are of type
  \<^verbatim>\<open>LoginError\<close>, by the type of its outcome.
\<close>

theorem login_success_never_returns:
  assumes "formData request = Inr fd"
    and "shopParam fd (url request) = Some (StringValue s)"
    and "s \<noteq> []" and "\<not> startsWith s ''http''"
    and "truthyString (sanitizeShop (utils (api params)) (shopWithDot s))"
  shows "(\<forall>v. fst (login params request) \<noteq> Returned v)
         \<and> (\<exists>target. fst (login params request) = Threw (RedirectResponse target))"
proof -
  from assms(5) obtain t where "sanitizeShop (utils (api params)) (shopWithDot s) = Some t"
    and "t \<noteq> []"
    by (rule truthyString_Some)
  with assms show ?thesis by (simp add: login_redirect)
qed

text \<open>A full shop domain in the query string.\<close>

theorem login_success_never_returns_witness:
  "shopParam [] (url (exampleRequest [(''shop'', ''dogs.myshopify.com'')] []))
       = Some (StringValue ''dogs.myshopify.com'')
   \<and> \<not> startsWith ''dogs.myshopify.com'' ''http''
   \<and> truthyString (sanitizeShop (utils (api exampleParams)) (shopWithDot ''dogs.myshopify.com''))
   \<and> (\<forall>v. fst (login exampleParams (exampleRequest [(''shop'', ''dogs.myshopify.com'')] []))
         \<noteq> Returned v)"
  using login_success_never_returns
          [of "exampleRequest [(''shop'', ''dogs.myshopify.com'')] []" "[]"
          "''dogs.myshopify.com''" exampleParams]
  by (simp add: example_defs shopWithDot_def)

section \<open>Login: form value and query value\<close>




section \<open>Webhook registration\<close>

text \<open>
  Claim C7. For every session, \<^verbatim>\<open>registerWebhooks\<close> calls \<^verbatim>\<open>api.webhooks.register\<close>
  exactly once, with that session. When the call fulfils with a response, the handler
  returns that response, and everything else it does is one logger call per result, in
  order, at level \<^verbatim>\<open>debug\<close> for a success and \<^verbatim>\<open>error\<close> for a failure: a failed
  result brings no second registration call and no exception.
\<close>

theorem registerWebhooks_once_logs_only:
  "registerCalls (snd (registerWebhooks f params options)) = [session options]
   \<and> (register (webhooks (api params)) (session options) = Inr response \<longrightarrow>
        fst (registerWebhooks f params options) = Returned response
        \<and> loggerCalls (snd (registerWebhooks f params options))
            = map (\<lambda>r. if success r then Debug else Error) (concat (map snd response))
        \<and> length (snd (registerWebhooks f params options))
            = 1 + length (concat (map snd response)))"
  by (cases "register (webhooks (api params)) (session options)")
     (simp_all add: registerWebhooks_def registerCalls_logResponse loggerCalls_logResponse
        length_logResponse)

text \<open>A response with one registered topic and one failed topic.\<close>

theorem registerWebhooks_once_logs_only_witness:
  "register (webhooks (api exampleParams)) exampleSession = Inr exampleResponse
   \<and> registerCalls (snd (registerWebhooks id exampleParams \<lparr>session = exampleSession\<rparr>))
       = [exampleSession]
   \<and> fst (registerWebhooks id exampleParams \<lparr>session = exampleSession\<rparr>)
       = Returned exampleResponse
   \<and> loggerCalls (snd (registerWebhooks id exampleParams \<lparr>session = exampleSession\<rparr>))
       = [Debug, Error]
   \<and> length (snd (registerWebhooks id exampleParams \<lparr>session = exampleSession\<rparr>)) = 3"
  using registerWebhooks_once_logs_only
          [of id exampleParams "\<lparr>session = exampleSession\<rparr>" exampleResponse]
  by (simp add: exampleParams_def exampleRegister_def exampleResponse_def)

end
